theory Spec2Isabelle
  imports Complex_Main
begin

section \<open>JavaScript numbers\<close>

text \<open>
  A JavaScript Number is modelled by its exact value: a rational, one of the two
  infinities, or NaN. Arithmetic follows IEEE 754 on these values (NaN is absorbing,
  division by zero gives an infinity or NaN, every comparison with NaN is false).
  The rounding of binary doubles and the sign of zero are not represented.
\<close>

datatype jsnum = NaN | PInf | NInf | Fin rat

instantiation jsnum :: "{plus, minus, uminus, times, inverse, abs, ord}"
begin

fun uminus_jsnum :: "jsnum \<Rightarrow> jsnum" where
  "uminus_jsnum NaN = NaN"
| "uminus_jsnum PInf = NInf"
| "uminus_jsnum NInf = PInf"
| "uminus_jsnum (Fin a) = Fin (- a)"

fun plus_jsnum :: "jsnum \<Rightarrow> jsnum \<Rightarrow> jsnum" where
  "plus_jsnum NaN y = NaN"
| "plus_jsnum x NaN = NaN"
| "plus_jsnum PInf NInf = NaN"
| "plus_jsnum NInf PInf = NaN"
| "plus_jsnum PInf y = PInf"
| "plus_jsnum NInf y = NInf"
| "plus_jsnum (Fin a) PInf = PInf"
| "plus_jsnum (Fin a) NInf = NInf"
| "plus_jsnum (Fin a) (Fin b) = Fin (a + b)"

definition minus_jsnum :: "jsnum \<Rightarrow> jsnum \<Rightarrow> jsnum" where
  "minus_jsnum x y = x + (- y)"

fun sgn_inf :: "rat \<Rightarrow> jsnum" where
  "sgn_inf a = (if a = 0 then NaN else if 0 < a then PInf else NInf)"

fun times_jsnum :: "jsnum \<Rightarrow> jsnum \<Rightarrow> jsnum" where
  "times_jsnum NaN y = NaN"
| "times_jsnum x NaN = NaN"
| "times_jsnum PInf PInf = PInf"
| "times_jsnum PInf NInf = NInf"
| "times_jsnum NInf PInf = NInf"
| "times_jsnum NInf NInf = PInf"
| "times_jsnum PInf (Fin b) = sgn_inf b"
| "times_jsnum NInf (Fin b) = sgn_inf (- b)"
| "times_jsnum (Fin a) PInf = sgn_inf a"
| "times_jsnum (Fin a) NInf = sgn_inf (- a)"
| "times_jsnum (Fin a) (Fin b) = Fin (a * b)"

fun divide_jsnum :: "jsnum \<Rightarrow> jsnum \<Rightarrow> jsnum" where
  "divide_jsnum NaN y = NaN"
| "divide_jsnum x NaN = NaN"
| "divide_jsnum (Fin a) (Fin b) = (if b = 0 then sgn_inf a else Fin (a / b))"
| "divide_jsnum (Fin a) y = Fin 0"
| "divide_jsnum PInf (Fin b) = (if 0 \<le> b then PInf else NInf)"
| "divide_jsnum NInf (Fin b) = (if 0 \<le> b then NInf else PInf)"
| "divide_jsnum x y = NaN"

definition inverse_jsnum :: "jsnum \<Rightarrow> jsnum" where
  "inverse_jsnum x = divide (Fin 1) x"

fun abs_jsnum :: "jsnum \<Rightarrow> jsnum" where
  "abs_jsnum NaN = NaN"
| "abs_jsnum PInf = PInf"
| "abs_jsnum NInf = PInf"
| "abs_jsnum (Fin a) = Fin \<bar>a\<bar>"

fun less_jsnum :: "jsnum \<Rightarrow> jsnum \<Rightarrow> bool" where
  "less_jsnum NaN y = False"
| "less_jsnum x NaN = False"
| "less_jsnum x NInf = False"
| "less_jsnum PInf y = False"
| "less_jsnum NInf y = True"
| "less_jsnum (Fin a) PInf = True"
| "less_jsnum (Fin a) (Fin b) = (a < b)"

fun less_eq_jsnum :: "jsnum \<Rightarrow> jsnum \<Rightarrow> bool" where
  "less_eq_jsnum NaN y = False"
| "less_eq_jsnum x NaN = False"
| "less_eq_jsnum NInf y = True"
| "less_eq_jsnum x PInf = True"
| "less_eq_jsnum x NInf = False"
| "less_eq_jsnum PInf y = False"
| "less_eq_jsnum (Fin a) (Fin b) = (a \<le> b)"

instance ..

end

text \<open>\<^verbatim>\<open>isNaN\<close>, \<^verbatim>\<open>isFinite\<close>, \<^verbatim>\<open>Math.pow\<close> with a non-negative integer exponent,
  \<^verbatim>\<open>Math.round\<close>, \<^verbatim>\<open>Math.ceil\<close>, \<^verbatim>\<open>Math.floor\<close>, \<^verbatim>\<open>Math.min\<close>, \<^verbatim>\<open>Math.max\<close>.\<close>

fun isNaN :: "jsnum \<Rightarrow> bool" where
  "isNaN NaN = True"
| "isNaN x = False"

fun isFinite :: "jsnum \<Rightarrow> bool" where
  "isFinite (Fin a) = True"
| "isFinite x = False"

fun Math_pow :: "jsnum \<Rightarrow> nat \<Rightarrow> jsnum" where
  "Math_pow x 0 = Fin 1"
| "Math_pow NaN n = NaN"
| "Math_pow PInf n = PInf"
| "Math_pow NInf n = (if even n then PInf else NInf)"
| "Math_pow (Fin a) n = Fin (a ^ n)"

fun Math_round :: "jsnum \<Rightarrow> jsnum" where
  "Math_round (Fin a) = Fin (of_int \<lfloor>a + 1 / 2\<rfloor>)"
| "Math_round x = x"

fun Math_ceil :: "jsnum \<Rightarrow> jsnum" where
  "Math_ceil (Fin a) = Fin (of_int \<lceil>a\<rceil>)"
| "Math_ceil x = x"

fun Math_floor :: "jsnum \<Rightarrow> jsnum" where
  "Math_floor (Fin a) = Fin (of_int \<lfloor>a\<rfloor>)"
| "Math_floor x = x"

definition Math_min :: "jsnum \<Rightarrow> jsnum \<Rightarrow> jsnum" where
  "Math_min x y = (if isNaN x \<or> isNaN y then NaN else if x \<le> y then x else y)"

definition Math_max :: "jsnum \<Rightarrow> jsnum \<Rightarrow> jsnum" where
  "Math_max x y = (if isNaN x \<or> isNaN y then NaN else if x \<le> y then y else x)"


section \<open>Values, strings and number formatting\<close>

text \<open>
  A field value of the request body: a string, a number, a boolean, \<^verbatim>\<open>null\<close> or a
  nested object (opaque here). A missing field (\<^verbatim>\<open>undefined\<close>) is \<open>None\<close> in a lookup.
\<close>

datatype jsval = JStr string | JNum jsnum | JBool bool | JNull | JObj

type_synonym fields = "string \<rightharpoonup> jsval"

fun truthy :: "jsval option \<Rightarrow> bool" where
  "truthy None = False"
| "truthy (Some (JStr s)) = (s \<noteq> [])"
| "truthy (Some (JNum n)) = (n \<noteq> NaN \<and> n \<noteq> Fin 0)"
| "truthy (Some (JBool b)) = b"
| "truthy (Some JNull) = False"
| "truthy (Some JObj) = True"

definition is_digit :: "char \<Rightarrow> bool" where
  "is_digit c = (c \<in> set ''0123456789'')"

definition digit_char :: "nat \<Rightarrow> char" where
  "digit_char d = ''0123456789'' ! d"

text \<open>The value of a digit character is its position among the ten digits.\<close>

definition digit_val :: "char \<Rightarrow> nat" where
  "digit_val c = length (takeWhile (\<lambda>d. d \<noteq> c) ''0123456789'')"

definition digits_val :: "string \<Rightarrow> nat" where
  "digits_val s = foldl (\<lambda>a c. 10 * a + digit_val c) 0 s"

fun digits :: "nat \<Rightarrow> string" where
  "digits n = (if n < 10 then [digit_char n] else digits (n div 10) @ [digit_char (n mod 10)])"

declare digits.simps [simp del]

text \<open>The decimal digits of a fractional part \<open>0 \<le> f < 1\<close>, at most \<open>k\<close> of them.\<close>

fun frac_digits :: "nat \<Rightarrow> rat \<Rightarrow> string" where
  "frac_digits k f =
     (if k = 0 \<or> f = 0 then []
      else digit_char (nat \<lfloor>f * 10\<rfloor>) # frac_digits (k - 1) (f * 10 - of_int \<lfloor>f * 10\<rfloor>))"

declare frac_digits.simps [simp del]

text \<open>
  \<^verbatim>\<open>String(n)\<close> / \<^verbatim>\<open>n.toString()\<close> of a number: the decimal expansion of the exact value
  (up to 20 fractional digits). The exponent notation that JavaScript switches to for
  magnitudes of at least 1e21 or below 1e-6 is not represented.
\<close>

fun numToString :: "jsnum \<Rightarrow> string" where
  "numToString NaN = ''NaN''"
| "numToString PInf = ''Infinity''"
| "numToString NInf = ''-Infinity''"
| "numToString (Fin q) =
     (let ip = nat \<lfloor>\<bar>q\<bar>\<rfloor>; fd = frac_digits 20 (\<bar>q\<bar> - of_nat ip)
      in (if q < 0 then ''-'' else []) @ digits ip @ (if fd = [] then [] else CHR ''.'' # fd))"

fun js_String :: "jsval \<Rightarrow> string" where
  "js_String (JStr s) = s"
| "js_String (JNum n) = numToString n"
| "js_String (JBool b) = (if b then ''true'' else ''false'')"
| "js_String JNull = ''null''"
| "js_String JObj = ''[object Object]''"

text \<open>
  \<^verbatim>\<open>x.toFixed(d)\<close>: the nearest multiple of \<open>10^-d\<close> (the larger one on a tie), written with
  exactly \<open>d\<close> fractional digits.
\<close>

definition pad_left :: "nat \<Rightarrow> string \<Rightarrow> string" where
  "pad_left d s = replicate (d - length s) CHR ''0'' @ s"

fun toFixed :: "jsnum \<Rightarrow> nat \<Rightarrow> string" where
  "toFixed (Fin q) d =
     (let n = nat \<lfloor>\<bar>q\<bar> * 10 ^ d + 1 / 2\<rfloor>
      in (if q < 0 then ''-'' else []) @ digits (n div 10 ^ d)
         @ (if d = 0 then [] else CHR ''.'' # pad_left d (digits (n mod 10 ^ d))))"
| "toFixed x d = numToString x"

text \<open>
  \<^verbatim>\<open>n.toLocaleString('es-CO')\<close> is a service of the platform, not code of the repository.
  It is modelled as the comments of the source describe it: the integer part in groups
  of three separated by dots, and a decimal comma followed by at most three fractional
  digits (rounded, trailing zeros dropped).
\<close>

fun group3_rev :: "string \<Rightarrow> string" where
  "group3_rev (a # b # c # d # ds) = a # b # c # CHR ''.'' # group3_rev (d # ds)"
| "group3_rev ds = ds"

definition group3 :: "string \<Rightarrow> string" where
  "group3 s = rev (group3_rev (rev s))"

definition strip_zeros :: "string \<Rightarrow> string" where
  "strip_zeros s = rev (dropWhile (\<lambda>c. c = CHR ''0'') (rev s))"

fun toLocaleString_esCO :: "jsnum \<Rightarrow> string" where
  "toLocaleString_esCO NaN = ''NaN''"
| "toLocaleString_esCO PInf = [CHR 0xE2, CHR 0x88, CHR 0x9E]"
| "toLocaleString_esCO NInf = [CHR ''-'', CHR 0xE2, CHR 0x88, CHR 0x9E]"
| "toLocaleString_esCO (Fin q) =
     (let n = nat \<lfloor>\<bar>q\<bar> * 1000 + 1 / 2\<rfloor>;
          fd = strip_zeros (pad_left 3 (digits (n mod 1000)))
      in (if q < 0 then ''-'' else []) @ group3 (digits (n div 1000))
         @ (if fd = [] then [] else CHR '','' # fd))"

section \<open>Numeric parse\<close>

text \<open>
  \<^verbatim>\<open>s.replace(/[^0-9.-]/g, '')\<close> keeps the digits, the dot and the minus sign.
\<close>

definition replace_non_numeric :: "string \<Rightarrow> string" where
  "replace_non_numeric s = filter (\<lambda>c. is_digit c \<or> c = CHR ''.'' \<or> c = CHR ''-'') s"

text \<open>
  \<^verbatim>\<open>Number(s)\<close> on a string of digits, dots and minus signs (the only strings the
  replacement leaves): the empty string is 0; an optional minus sign followed by
  digits with at most one dot and at least one digit is that decimal number; anything
  else is NaN.
\<close>

definition Number_str :: "string \<Rightarrow> jsnum" where
  "Number_str s =
     (if s = [] then Fin 0
      else let neg = (hd s = CHR ''-'');
               body = (if neg then tl s else s);
               ip = takeWhile is_digit body;
               rest = dropWhile is_digit body;
               fp = (if rest = [] then [] else tl rest);
               ok = ((rest = [] \<or> hd rest = CHR ''.'') \<and> list_all is_digit fp
                     \<and> (ip \<noteq> [] \<or> fp \<noteq> []));
               mag = of_nat (digits_val ip) + of_nat (digits_val fp) / 10 ^ length fp
           in if ok then Fin (if neg then - mag else mag) else NaN)"

text \<open>\<^verbatim>\<open>toNum\<close> (part_001, part_000) and the local \<^verbatim>\<open>num\<close> (server.js, part_002) are the
  same function.\<close>

fun toNum :: "jsval option \<Rightarrow> jsnum" where
  "toNum None = NaN"
| "toNum (Some JNull) = NaN"
| "toNum (Some v) =
     (if v = JStr [] then NaN
      else let n = Number_str (replace_non_numeric (js_String v))
           in if isNaN n then NaN else n)"

text \<open>\<^verbatim>\<open>formatCO\<close> (part_001) and \<^verbatim>\<open>formatNum\<close> (server.js).\<close>

definition formatCO :: "jsval option \<Rightarrow> string" where
  "formatCO v = (let n = toNum v in if isNaN n then [] else toLocaleString_esCO n)"


section \<open>Financial helpers (part_001)\<close>

text \<open>\<^verbatim>\<open>flows.reduce((acc, cf, t) => acc + cf / Math.pow(1 + rate, t), 0)\<close>\<close>

definition npv :: "jsnum \<Rightarrow> jsnum list \<Rightarrow> jsnum" where
  "npv rate flows =
     foldl (\<lambda>acc (t, cf). acc + cf / Math_pow (Fin 1 + rate) t) (Fin 0) (enumerate 0 flows)"

definition dNPV :: "jsnum list \<Rightarrow> jsnum \<Rightarrow> jsnum" where
  "dNPV flows r =
     foldl (\<lambda>acc (t, cf). if t = 0 then acc
                           else acc - (Fin (of_nat t) * cf) / Math_pow (Fin 1 + r) (t + 1))
       (Fin 0) (enumerate 0 flows)"

definition maxIter :: nat where
  "maxIter = 100"

definition tol :: jsnum where
  "tol = Fin (1 / 10 ^ 7)"

text \<open>
  The Newton-Raphson loop of \<^verbatim>\<open>irr\<close>, with the number of iterations left. \<open>Some r\<close> is
  the \<^verbatim>\<open>return rNext\<close> inside the loop; \<open>None\<close> is a \<^verbatim>\<open>break\<close> or the end of the loop,
  after which the fallback runs.
\<close>

fun newton :: "nat \<Rightarrow> jsnum list \<Rightarrow> jsnum \<Rightarrow> jsnum option" where
  "newton 0 flows r = None"
| "newton (Suc i) flows r =
     (let f = npv r flows; df = dNPV flows r
      in if \<bar>df\<bar> < Fin (1 / 10 ^ 12) then None
         else let rNext = r - f / df
              in if \<not> isFinite rNext then None
                 else if \<bar>rNext - r\<bar> < tol then Some rNext
                 else newton i flows rNext)"

text \<open>The bisection loop of the fallback, with the number of iterations left.\<close>

fun bisect :: "nat \<Rightarrow> jsnum list \<Rightarrow> jsnum \<Rightarrow> jsnum \<Rightarrow> jsnum \<Rightarrow> jsnum \<Rightarrow> jsnum" where
  "bisect 0 flows low high fLow fHigh = NaN"
| "bisect (Suc i) flows low high fLow fHigh =
     (let mid = (low + high) / Fin 2; fMid = npv mid flows
      in if \<bar>fMid\<bar> < tol then mid
         else if fLow * fMid < Fin 0 then bisect i flows low mid fLow fMid
         else bisect i flows mid high fMid fHigh)"

definition irr :: "jsnum list \<Rightarrow> jsnum \<Rightarrow> jsnum" where
  "irr flows guess =
     (case newton maxIter flows guess of
        Some r \<Rightarrow> r
      | None \<Rightarrow>
          (let low = Fin (- (9 / 10)); high = Fin 5;
               fLow = npv low flows; fHigh = npv high flows
           in if Fin 0 < fLow * fHigh then NaN
              else bisect 200 flows low high fLow fHigh))"

text \<open>
  The loop of \<^verbatim>\<open>paybackYears\<close> over the flows from index \<open>t\<close> on, with the running
  sum \<open>cum\<close> of the flows before \<open>t\<close>.
\<close>

fun payback_loop :: "jsnum list \<Rightarrow> nat \<Rightarrow> jsnum \<Rightarrow> jsnum" where
  "payback_loop [] t cum = NaN"
| "payback_loop (x # xs) t cum =
     (let cum' = cum + x
      in if Fin 0 \<le> cum'
         then (let prevCum = cum' - x;
                   frac = (if x \<noteq> Fin 0 then (Fin 0 - prevCum) / x else Fin 0)
               in Fin (of_nat t) - Fin 1 + Math_max (Fin 0) (Math_min (Fin 1) frac))
         else payback_loop xs (Suc t) cum')"

definition paybackYears :: "jsnum list \<Rightarrow> jsnum" where
  "paybackYears flows = payback_loop flows 0 (Fin 0)"

section \<open>The cash-flow model inside computeFields (part_001)\<close>

text \<open>
  The block \<^verbatim>\<open>CONSTANTES EDITABLES\<close> of \<^verbatim>\<open>computeFields\<close>. The functions below take the
  constants as a record, so that properties of the flows can be stated for every
  setting of them; \<open>CONSTANTS\<close> holds the values of the source.
\<close>

record constants =
  YEARS :: nat
  DISCOUNT :: rat
  SAVINGS_RATE :: rat
  O_M_RATE :: rat
  DEGRAD :: rat
  VAT :: rat
  MATERIALES_SHARE :: rat
  TAX_BENEFIT_MODE :: string

definition CONSTANTS :: constants where
  "CONSTANTS = \<lparr> YEARS = 25, DISCOUNT = 12 / 100, SAVINGS_RATE = 80 / 100,
     O_M_RATE = 1 / 100, DEGRAD = 5 / 1000, VAT = 19 / 100, MATERIALES_SHARE = 60 / 100,
     TAX_BENEFIT_MODE = ''YEAR1'' \<rparr>"

text \<open>The three quantities of year \<open>y\<close> that the loops over \<^verbatim>\<open>y = 1..YEARS\<close> compute.\<close>

definition ahorroAnual :: "constants \<Rightarrow> jsnum \<Rightarrow> nat \<Rightarrow> jsnum" where
  "ahorroAnual c ahorroMensual0 y =
     (let ahMes = (if isNaN ahorroMensual0 then Fin 0
                   else ahorroMensual0 * Math_pow (Fin 1 - Fin (DEGRAD c)) (y - 1))
      in ahMes * Fin 12)"

definition oym :: "constants \<Rightarrow> jsnum \<Rightarrow> jsnum" where
  "oym c INVERSION_TOTAL =
     (if isNaN INVERSION_TOTAL then Fin 0 else INVERSION_TOTAL * Fin (O_M_RATE c))"

definition benY :: "constants \<Rightarrow> jsnum \<Rightarrow> nat \<Rightarrow> jsnum" where
  "benY c BENEFICIO_TRIBUTARIO y =
     (if \<not> isNaN BENEFICIO_TRIBUTARIO
      then (let b = (if TAX_BENEFIT_MODE c = ''YEAR1'' \<and> y = 1
                     then BENEFICIO_TRIBUTARIO else Fin 0)
            in if TAX_BENEFIT_MODE c = ''DISTRIB_5Y'' \<and> y \<le> 5
               then BENEFICIO_TRIBUTARIO / Fin 5 else b)
      else Fin 0)"

definition years :: "constants \<Rightarrow> nat list" where
  "years c = [1 ..< Suc (YEARS c)]"

definition build_flows :: "constants \<Rightarrow> jsnum \<Rightarrow> jsnum \<Rightarrow> jsnum \<Rightarrow> jsnum list" where
  "build_flows c INVERSION_TOTAL ahorroMensual0 BENEFICIO_TRIBUTARIO =
     (if isNaN INVERSION_TOTAL then NaN else - INVERSION_TOTAL)
     # map (\<lambda>y. ahorroAnual c ahorroMensual0 y - oym c INVERSION_TOTAL
                 + benY c BENEFICIO_TRIBUTARIO y) (years c)"

definition sumaAhorros :: "constants \<Rightarrow> jsnum \<Rightarrow> jsnum" where
  "sumaAhorros c ahorroMensual0 =
     (if \<not> isNaN ahorroMensual0
      then foldl (\<lambda>s y. s + (ahorroMensual0 * Math_pow (Fin 1 - Fin (DEGRAD c)) (y - 1)) * Fin 12)
             (Fin 0) (years c)
      else Fin 0)"

definition computeBC :: "constants \<Rightarrow> jsnum \<Rightarrow> jsnum \<Rightarrow> jsnum \<Rightarrow> string" where
  "computeBC c INVERSION_TOTAL ahorroMensual0 BENEFICIO_TRIBUTARIO =
     (let benFlows = Fin 0 # map (\<lambda>y. ahorroAnual c ahorroMensual0 y
                                        + benY c BENEFICIO_TRIBUTARIO y) (years c);
          costFlows = (if isNaN INVERSION_TOTAL then Fin 0 else INVERSION_TOTAL)
                      # map (\<lambda>y. oym c INVERSION_TOTAL) (years c);
          pvBen = npv (Fin (DISCOUNT c)) benFlows;
          pvCost = npv (Fin (DISCOUNT c)) costFlows;
          bc = (if Fin 0 < pvCost then pvBen / pvCost else NaN)
      in if isFinite bc then toFixed bc 2 else [])"


section \<open>computeFields\<close>

text \<open>
  The four files of the repository are successive versions of the same server, each
  with its own \<^verbatim>\<open>computeFields\<close>. The steps they share are defined once. The object
  \<^verbatim>\<open>out\<close> is a map from field names to values; \<^verbatim>\<open>'K' in out\<close> is \<open>out K \<noteq> None\<close>.
  The current date, formatted, is the parameter \<open>today\<close>.
\<close>

definition set_FECHA :: "string \<Rightarrow> fields \<Rightarrow> fields" where
  "set_FECHA today out = (if \<not> truthy (out ''FECHA'') then out(''FECHA'' \<mapsto> JStr today) else out)"

definition derive_POTENCIA :: "jsnum \<Rightarrow> fields \<Rightarrow> fields" where
  "derive_POTENCIA ENERGIA out =
     (if out ''POTENCIA'' = None
      then (let pot = (if isNaN ENERGIA then NaN
                       else (ENERGIA * Fin (12 / 10)) / (Fin (42 / 10) * Fin 30 * Fin (81 / 100)))
            in out(''POTENCIA'' \<mapsto>
                 JStr (if isNaN pot then [] else numToString (Math_round (pot * Fin 100) / Fin 100))))
      else out)"

definition derive_PANELES :: "jsnum \<Rightarrow> fields \<Rightarrow> fields" where
  "derive_PANELES POTENCIA out =
     (if out ''PANELES'' = None
      then (let p = (if isNaN POTENCIA then NaN else Math_ceil ((POTENCIA * Fin 1000) / Fin 645))
            in out(''PANELES'' \<mapsto> JStr (if isNaN p then [] else numToString p)))
      else out)"

definition derive_INVERSORES :: "jsnum \<Rightarrow> fields \<Rightarrow> fields" where
  "derive_INVERSORES POTENCIA out =
     (if out ''INVERSORES'' = None
      then (let inv = (if isNaN POTENCIA then NaN else Math_ceil (POTENCIA / Fin (125 / 100)))
            in out(''INVERSORES'' \<mapsto> JStr (if isNaN inv then [] else numToString inv)))
      else out)"

definition derive_INVERSION_TOTAL :: "jsnum \<Rightarrow> fields \<Rightarrow> fields" where
  "derive_INVERSION_TOTAL POTENCIA out =
     (if out ''INVERSION_TOTAL'' = None
      then (let invTot = (if isNaN POTENCIA then NaN else POTENCIA * Fin 3550000)
            in out(''INVERSION_TOTAL'' \<mapsto>
                 JStr (if isNaN invTot then [] else numToString (Math_round invTot))))
      else out)"

text \<open>From \<^verbatim>\<open>POTENCIA\<close> to \<^verbatim>\<open>INVERSION_TOTAL\<close>: the same lines in server.js, part_001 and
  part_002.\<close>

definition sizing :: "fields \<Rightarrow> fields" where
  "sizing out0 =
     (let ENERGIA = toNum (out0 ''ENERGIA'');
          out1 = derive_POTENCIA ENERGIA out0;
          POTENCIA = toNum (out1 ''POTENCIA'');
          out2 = derive_PANELES POTENCIA out1;
          out3 = derive_INVERSORES POTENCIA out2
      in derive_INVERSION_TOTAL POTENCIA out3)"

definition derive_BENEFICIO_TRIBUTARIO :: "jsnum \<Rightarrow> fields \<Rightarrow> fields" where
  "derive_BENEFICIO_TRIBUTARIO INVERSION_TOTAL out =
     (if out ''BENEFICIO_TRIBUTARIO'' = None
      then (let ben = (if isNaN INVERSION_TOTAL then NaN else INVERSION_TOTAL / Fin 2)
            in out(''BENEFICIO_TRIBUTARIO'' \<mapsto>
                 JStr (if isNaN ben then [] else numToString (Math_round ben))))
      else out)"

text \<open>The four constant fields of server.js and part_002.\<close>

definition fixed_TIR :: "fields \<Rightarrow> fields" where
  "fixed_TIR out =
     (if out ''TIR'' = None
      then (let tir = Fin (19 / 100) / Fin 3
            in out(''TIR'' \<mapsto> JStr (toFixed (tir * Fin 100) 2 @ ''%'')))
      else out)"

definition fixed_BC :: "fields \<Rightarrow> fields" where
  "fixed_BC out =
     (if out ''BC'' = None then out(''BC'' \<mapsto> JStr (numToString (Fin 5 / Fin 2))) else out)"

definition fixed_AHORRO_TOTAL :: "fields \<Rightarrow> fields" where
  "fixed_AHORRO_TOTAL out =
     (if out ''AHORRO_TOTAL'' = None
      then (let ah = Fin 250000000 / Fin 3
            in out(''AHORRO_TOTAL'' \<mapsto> JStr (numToString (Math_round ah))))
      else out)"

definition fixed_RECUPERACION_INVERSION :: "fields \<Rightarrow> fields" where
  "fixed_RECUPERACION_INVERSION out =
     (if out ''RECUPERACION_INVERSION'' = None
      then out(''RECUPERACION_INVERSION'' \<mapsto> JStr (numToString (Fin 6 / Fin 2)))
      else out)"

definition fixed_metrics :: "fields \<Rightarrow> fields" where
  "fixed_metrics out =
     fixed_RECUPERACION_INVERSION (fixed_AHORRO_TOTAL (fixed_BC (fixed_TIR out)))"

text \<open>The payment block of server.js.\<close>

definition derive_PAGO :: "string \<Rightarrow> rat \<Rightarrow> jsnum \<Rightarrow> fields \<Rightarrow> fields" where
  "derive_PAGO k share INVERSION_TOTAL out =
     (if out k = None \<or> out k = Some (JStr [])
      then out(k \<mapsto> JStr (numToString (Math_round (INVERSION_TOTAL * Fin share))))
      else out)"

definition pagos :: "jsnum \<Rightarrow> fields \<Rightarrow> fields" where
  "pagos INVERSION_TOTAL out =
     (if \<not> isNaN INVERSION_TOTAL
      then derive_PAGO ''PAGO4'' (10 / 100) INVERSION_TOTAL
             (derive_PAGO ''PAGO3'' (40 / 100) INVERSION_TOTAL
               (derive_PAGO ''PAGO2'' (20 / 100) INVERSION_TOTAL
                 (derive_PAGO ''PAGO1'' (30 / 100) INVERSION_TOTAL out)))
      else out)"

text \<open>\<^verbatim>\<open>if (!('K' in out)) out.K = isNaN(n) ? '' : String(n)\<close> for ENERGIA and FACTURA
  (server.js, part_001).\<close>

definition assign_base :: "string \<Rightarrow> jsnum \<Rightarrow> fields \<Rightarrow> fields" where
  "assign_base k n out =
     (if out k = None then out(k \<mapsto> JStr (if isNaN n then [] else numToString n)) else out)"

text \<open>\<^verbatim>\<open>if (!('K' in out) && !isNaN(n)) out.K = String(n)\<close> (part_002).\<close>

definition assign_base_part002 :: "string \<Rightarrow> jsnum \<Rightarrow> fields \<Rightarrow> fields" where
  "assign_base_part002 k n out =
     (if out k = None \<and> \<not> isNaN n then out(k \<mapsto> JStr (numToString n)) else out)"

text \<open>The final block \<^verbatim>\<open>out.K = formatCO(out.K)\<close>, one line for each of these fields, in
  this order (server.js, part_001).\<close>

definition format_field :: "fields \<Rightarrow> string \<Rightarrow> fields" where
  "format_field out k = out(k \<mapsto> JStr (formatCO (out k)))"

definition formatted_fields :: "string list" where
  "formatted_fields = [''INVERSION_TOTAL'', ''BENEFICIO_TRIBUTARIO'', ''AHORRO_TOTAL'',
     ''FACTURA'', ''ENERGIA'', ''PAGO1'', ''PAGO2'', ''PAGO3'', ''PAGO4'', ''IVA_MATERIALES'']"

definition final_format :: "fields \<Rightarrow> fields" where
  "final_format out = foldl format_field out formatted_fields"

text \<open>\<^verbatim>\<open>computeFields\<close> of server.js.\<close>

definition computeFields_server :: "string \<Rightarrow> fields \<Rightarrow> fields" where
  "computeFields_server today input =
     (let out0 = set_FECHA today input;
          ENERGIA = toNum (out0 ''ENERGIA'');
          FACTURA = toNum (out0 ''FACTURA'');
          out1 = sizing out0;
          INVERSION_TOTAL = toNum (out1 ''INVERSION_TOTAL'');
          out2 = derive_BENEFICIO_TRIBUTARIO INVERSION_TOTAL out1;
          out3 = fixed_metrics out2;
          out4 = pagos INVERSION_TOTAL out3;
          out5 = assign_base ''FACTURA'' FACTURA (assign_base ''ENERGIA'' ENERGIA out4)
      in final_format out5)"

text \<open>\<^verbatim>\<open>computeFields\<close> of part_002.\<close>

definition computeFields_part002 :: "string \<Rightarrow> fields \<Rightarrow> fields" where
  "computeFields_part002 today input =
     (let out0 = set_FECHA today input;
          ENERGIA = toNum (out0 ''ENERGIA'');
          FACTURA = toNum (out0 ''FACTURA'');
          out1 = sizing out0;
          INVERSION_TOTAL = toNum (out1 ''INVERSION_TOTAL'');
          out2 = derive_BENEFICIO_TRIBUTARIO INVERSION_TOTAL out1;
          out3 = fixed_metrics out2
      in assign_base_part002 ''FACTURA'' FACTURA (assign_base_part002 ''ENERGIA'' ENERGIA out3))"

text \<open>
  \<^verbatim>\<open>computeFields\<close> of part_001. \<open>cash_inputs\<close> is the state of the computation when the
  flows are built: the object \<^verbatim>\<open>out\<close> and the three numbers the flows are built from.
\<close>

definition iva_materiales :: "constants \<Rightarrow> jsnum \<Rightarrow> fields \<Rightarrow> fields" where
  "iva_materiales c INVERSION_TOTAL out =
     (let MATERIALES_BASE =
            (if out ''MATERIALES_BASE'' \<noteq> None then toNum (out ''MATERIALES_BASE'')
             else if isNaN INVERSION_TOTAL then NaN
             else INVERSION_TOTAL * Fin (MATERIALES_SHARE c));
          IVA_MATERIALES = (if isNaN MATERIALES_BASE then NaN else MATERIALES_BASE * Fin (VAT c))
      in out(''IVA_MATERIALES'' \<mapsto> JStr (formatCO (Some (JNum IVA_MATERIALES)))))"

record cash_inputs =
  ci_out :: fields
  ci_INVERSION_TOTAL :: jsnum
  ci_ahorroMensual0 :: jsnum
  ci_BENEFICIO_TRIBUTARIO :: jsnum

definition prepare :: "constants \<Rightarrow> string \<Rightarrow> fields \<Rightarrow> cash_inputs" where
  "prepare c today input =
     (let out0 = set_FECHA today input;
          FACTURA = toNum (out0 ''FACTURA'');
          out1 = sizing out0;
          INVERSION_TOTAL = toNum (out1 ''INVERSION_TOTAL'');
          out2 = iva_materiales c INVERSION_TOTAL out1;
          out3 = derive_BENEFICIO_TRIBUTARIO INVERSION_TOTAL out2;
          BENEFICIO_TRIBUTARIO = toNum (out3 ''BENEFICIO_TRIBUTARIO'');
          ahorroMensual0 = (if isNaN FACTURA then NaN else FACTURA * Fin (SAVINGS_RATE c))
      in \<lparr> ci_out = out3, ci_INVERSION_TOTAL = INVERSION_TOTAL,
           ci_ahorroMensual0 = ahorroMensual0,
           ci_BENEFICIO_TRIBUTARIO = BENEFICIO_TRIBUTARIO \<rparr>)"

text \<open>The array \<^verbatim>\<open>flows\<close> that \<^verbatim>\<open>computeFields\<close> of part_001 builds for an input.\<close>

definition flows_of :: "string \<Rightarrow> fields \<Rightarrow> jsnum list" where
  "flows_of today input =
     (let s = prepare CONSTANTS today input
      in build_flows CONSTANTS (ci_INVERSION_TOTAL s) (ci_ahorroMensual0 s)
           (ci_BENEFICIO_TRIBUTARIO s))"

definition derive_AHORRO_TOTAL :: "constants \<Rightarrow> jsnum \<Rightarrow> fields \<Rightarrow> fields" where
  "derive_AHORRO_TOTAL c ahorroMensual0 out =
     (if out ''AHORRO_TOTAL'' = None
      then out(''AHORRO_TOTAL'' \<mapsto> JStr (numToString (Math_round (sumaAhorros c ahorroMensual0))))
      else out)"

definition metrics :: "constants \<Rightarrow> cash_inputs \<Rightarrow> jsnum list \<Rightarrow> fields" where
  "metrics c s flows =
     (let out4 = derive_AHORRO_TOTAL c (ci_ahorroMensual0 s) (ci_out s);
          out5 = out4(''BC'' \<mapsto> JStr (computeBC c (ci_INVERSION_TOTAL s) (ci_ahorroMensual0 s)
                                        (ci_BENEFICIO_TRIBUTARIO s)));
          tir = irr flows (Fin (1 / 10));
          out6 = out5(''TIR'' \<mapsto> JStr (if isFinite tir then toFixed (tir * Fin 100) 2 @ ''%'' else []));
          pb = paybackYears flows;
          out7 = out6(''RECUPERACION_INVERSION'' \<mapsto> JStr (if isFinite pb then toFixed pb 1 else []));
          totalIn = foldl (+) (Fin 0) (tl flows);
          roi = (if isNaN (ci_INVERSION_TOTAL s) then NaN
                 else (totalIn + hd flows) / \<bar>hd flows\<bar>)
      in out7(''ROI'' \<mapsto> JStr (if isFinite roi then toFixed (roi * Fin 100) 1 @ ''%'' else [])))"

definition computeFields_part001 :: "string \<Rightarrow> fields \<Rightarrow> fields" where
  "computeFields_part001 today input =
     (let s = prepare CONSTANTS today input;
          ENERGIA = toNum (set_FECHA today input ''ENERGIA'');
          FACTURA = toNum (set_FECHA today input ''FACTURA'');
          out8 = metrics CONSTANTS s (flows_of today input);
          out9 = assign_base ''FACTURA'' FACTURA (assign_base ''ENERGIA'' ENERGIA out8)
      in final_format out9)"


section \<open>Document assembly (server.js)\<close>

text \<open>
  A buffer is a byte string; \<open>None\<close> is a missing buffer (\<^verbatim>\<open>null\<close>). The PDF library and
  the page renderer are collaborators outside the repository and appear as parameters:
  \<open>load\<close> is \<^verbatim>\<open>PDFDocument.load\<close> followed by the copy of all pages in index order
  (\<open>None\<close> when the library throws), \<open>save\<close> serialises the pages of the output document,
  \<open>render\<close> is \<^verbatim>\<open>renderUrlToPdfBuffer\<close> (\<open>None\<close> when it throws) and \<open>readFileSync\<close> reads a
  file (\<open>None\<close> when it does not exist).
\<close>

type_synonym buffer = "string option"

datatype error = RenderError | PdfParseError

text \<open>The loop of \<^verbatim>\<open>mergePdfBuffers\<close>; \<open>out\<close> holds the pages added so far.\<close>

fun merge_loop :: "(string \<Rightarrow> 'p list option) \<Rightarrow> 'p list \<Rightarrow> buffer list \<Rightarrow> error + 'p list" where
  "merge_loop load out [] = Inr out"
| "merge_loop load out (b # bs) =
     (case b of
        None \<Rightarrow> merge_loop load out bs
      | Some bytes \<Rightarrow>
          if length bytes = 0 then merge_loop load out bs
          else (case load bytes of
                  None \<Rightarrow> Inl PdfParseError
                | Some pages \<Rightarrow> merge_loop load (out @ pages) bs))"

definition mergePdfBuffers ::
  "(string \<Rightarrow> 'p list option) \<Rightarrow> ('p list \<Rightarrow> string) \<Rightarrow> buffer list \<Rightarrow> error + string" where
  "mergePdfBuffers load save buffers =
     (case merge_loop load [] buffers of Inl e \<Rightarrow> Inl e | Inr out \<Rightarrow> Inr (save out))"

definition afterIndex2 :: "string list" where
  "afterIndex2 = [''templates/anexo1.pdf'', ''templates/anexo2.pdf'']"

definition afterIndex3 :: "string list" where
  "afterIndex3 = [''templates/anexo3.pdf'']"

text \<open>
  \<^verbatim>\<open>buildPageUrl\<close>: the template file and the query parameters, one for each entry of
  \<^verbatim>\<open>data\<close> that is neither \<^verbatim>\<open>undefined\<close> nor \<^verbatim>\<open>null\<close>. The base address and the percent
  encoding of the query string are left out.
\<close>

record page_url =
  url_filename :: string
  url_params :: "(string \<times> string) list"

definition buildPageUrl :: "string \<Rightarrow> (string \<times> jsval option) list \<Rightarrow> page_url" where
  "buildPageUrl filename data =
     \<lparr> url_filename = filename,
       url_params = [(k, js_String v). (k, Some v) \<leftarrow> data, v \<noteq> JNull] \<rparr>"

text \<open>\<^verbatim>\<open>v || ''\<close>\<close>

definition or_empty :: "jsval option \<Rightarrow> jsval option" where
  "or_empty v = (if truthy v then v else Some (JStr []))"

definition urlIndex :: "fields \<Rightarrow> page_url" where
  "urlIndex data = buildPageUrl ''index.html''
     [(''EMPRESA'', data ''EMPRESA''), (''CLIENTE'', data ''CLIENTE''),
      (''CIUDAD'', data ''CIUDAD''), (''FECHA'', data ''FECHA''),
      (''POTENCIA'', data ''POTENCIA''), (''ENERGIA'', data ''ENERGIA''),
      (''FACTURA'', data ''FACTURA'')]"

definition urlIndex2 :: "fields \<Rightarrow> page_url" where
  "urlIndex2 data = buildPageUrl ''index2.html''
     [(''PANELES'', data ''PANELES''), (''INVERSORES'', data ''INVERSORES'')]"

definition urlIndex3 :: "fields \<Rightarrow> page_url" where
  "urlIndex3 data = buildPageUrl ''index3.html''
     [(''INVERSION_TOTAL'', data ''INVERSION_TOTAL''),
      (''BENEFICIO_TRIBUTARIO'', data ''BENEFICIO_TRIBUTARIO''),
      (''RECUPERACION_INVERSION'', data ''RECUPERACION_INVERSION''),
      (''TIR'', data ''TIR''), (''BC'', data ''BC''),
      (''AHORRO_TOTAL'', data ''AHORRO_TOTAL''), (''ENERGIA'', data ''ENERGIA''),
      (''AHORRO_MENSUAL'', or_empty (data ''AHORRO_TOTAL'')),
      (''FACTUIRA'', or_empty (data ''FACTURA'')),
      (''PAGO1'', or_empty (data ''PAGO1'')), (''PAGO2'', or_empty (data ''PAGO2'')),
      (''PAGO3'', or_empty (data ''PAGO3'')), (''PAGO4'', or_empty (data ''PAGO4'')),
      (''IVA_MATERIALES'', or_empty (data ''IVA_MATERIALES''))]"

text \<open>\<^verbatim>\<open>STATIC_PDFS.afterIndexN.map(readStaticPdfBuffer).filter(Boolean)\<close>\<close>

definition annex :: "(string \<Rightarrow> string option) \<Rightarrow> string list \<Rightarrow> buffer list" where
  "annex readFileSync paths = filter (\<lambda>b. b \<noteq> None) (map readFileSync paths)"

text \<open>
  The handler of \<^verbatim>\<open>POST /render/cotizacion\<close>: \<open>Inr\<close> is the body of the 200 response,
  \<open>Inl\<close> the 500 response of the \<^verbatim>\<open>catch\<close> block.
\<close>

definition render_cotizacion ::
  "(page_url \<Rightarrow> string option) \<Rightarrow> (string \<Rightarrow> string option) \<Rightarrow> (string \<Rightarrow> 'p list option)
     \<Rightarrow> ('p list \<Rightarrow> string) \<Rightarrow> string \<Rightarrow> fields \<Rightarrow> error + string" where
  "render_cotizacion render readFileSync load save today inputData =
     (let data = computeFields_server today inputData
      in case render (urlIndex data) of
           None \<Rightarrow> Inl RenderError
         | Some pdfIndex \<Rightarrow>
        (case render (urlIndex2 data) of
           None \<Rightarrow> Inl RenderError
         | Some pdfIndex2 \<Rightarrow>
        (case render (urlIndex3 data) of
           None \<Rightarrow> Inl RenderError
         | Some pdfIndex3 \<Rightarrow>
             (let annexAfter2 = annex readFileSync afterIndex2;
                  annexAfter3 = annex readFileSync afterIndex3
              in mergePdfBuffers load save
                   ([Some pdfIndex, Some pdfIndex2] @ annexAfter2
                    @ [Some pdfIndex3] @ annexAfter3)))))"

text \<open>The pages a buffer contributes to the merged document.\<close>

definition pages_of :: "(string \<Rightarrow> 'p list option) \<Rightarrow> buffer \<Rightarrow> 'p list" where
  "pages_of load b =
     (case b of
        None \<Rightarrow> []
      | Some bytes \<Rightarrow> if length bytes = 0 then [] else (case load bytes of None \<Rightarrow> [] | Some ps \<Rightarrow> ps))"

definition loadable :: "(string \<Rightarrow> 'p list option) \<Rightarrow> buffer \<Rightarrow> bool" where
  "loadable load b =
     (case b of None \<Rightarrow> True | Some bytes \<Rightarrow> length bytes = 0 \<or> load bytes \<noteq> None)"

section \<open>Predicates of the specification\<close>





text \<open>
  The flow of year \<open>y\<close> as the specification writes it (section 4.2), evaluated in
  JavaScript arithmetic: \<open>savingsY - omY + benefitY\<close>.
\<close>

definition spec_flow :: "constants \<Rightarrow> jsnum \<Rightarrow> jsnum \<Rightarrow> jsnum \<Rightarrow> nat \<Rightarrow> jsnum" where
  "spec_flow c investment monthlySavings0 taxBenefit y =
     monthlySavings0 * Math_pow (Fin 1 - Fin (DEGRAD c)) (y - 1) * Fin 12
     - investment * Fin (O_M_RATE c)
     + (if TAX_BENEFIT_MODE c = ''YEAR1'' \<and> y = 1 then taxBenefit
        else if TAX_BENEFIT_MODE c = ''DISTRIB_5Y'' \<and> y \<le> 5 then taxBenefit / Fin 5
        else Fin 0)"

text \<open>A quantity that is NaN counted as 0.\<close>

definition nan_as_zero :: "jsnum \<Rightarrow> jsnum" where
  "nan_as_zero x = (if isNaN x then Fin 0 else x)"


text \<open>The fields that server.js and part_002 fill with constants.\<close>

definition metric_fields :: "string list" where
  "metric_fields = [''TIR'', ''BC'', ''AHORRO_TOTAL'', ''RECUPERACION_INVERSION'']"

section \<open>Evaluation rules\<close>

lemma floor_rat_numeral_div [simp]:
  "\<lfloor>numeral a / numeral b :: rat\<rfloor> = numeral a div numeral b"
  by (metis floor_divide_of_int_eq of_int_numeral)

lemma floor_rat_neg_numeral_div [simp]:
  "\<lfloor>- (numeral a / numeral b) :: rat\<rfloor> = - numeral a div numeral b"
  by (metis floor_divide_of_int_eq of_int_numeral of_int_minus minus_divide_left)

lemma floor_rat_one_div [simp]:
  "\<lfloor>1 / numeral b :: rat\<rfloor> = 1 div numeral b"
  by (metis floor_divide_of_int_eq of_int_numeral of_int_1)

lemma floor_rat_neg_one_div [simp]:
  "\<lfloor>- (1 / numeral b) :: rat\<rfloor> = - 1 div numeral b"
  by (metis floor_divide_of_int_eq of_int_numeral of_int_1 of_int_minus minus_divide_left)

lemma ceiling_rat_numeral_div [simp]:
  "\<lceil>numeral a / numeral b :: rat\<rceil> = - (- numeral a div numeral b)"
  unfolding ceiling_def by simp

lemma ceiling_rat_neg_numeral_div [simp]:
  "\<lceil>- (numeral a / numeral b) :: rat\<rceil> = - (numeral a div numeral b)"
  unfolding ceiling_def by simp

named_theorems js_eval

lemmas [js_eval] = Number_str_def replace_non_numeric_def is_digit_def digits_val_def digit_val_def
  digits.simps frac_digits.simps digit_char_def group3_def strip_zeros_def pad_left_def
  formatCO_def minus_jsnum_def Math_min_def Math_max_def Let_def

section \<open>The numeric parse\<close>

lemma toNum_stripped_empty:
  "s \<noteq> [] \<Longrightarrow> replace_non_numeric s = [] \<Longrightarrow> toNum (Some (JStr s)) = Fin 0"
  by (simp add: Number_str_def)

lemma toNum_string:
  "toNum (Some (JStr s)) = (if s = [] then NaN else Number_str (replace_non_numeric s))"
  by (cases "Number_str (replace_non_numeric s)") simp_all

lemma replace_non_numeric_chars:
  "set (replace_non_numeric s) \<subseteq> set ''0123456789.-''"
  by (auto simp: replace_non_numeric_def is_digit_def)


text \<open>
  C6. The parse keeps the digits, dots and minus signs of the value and converts what
  is left. A value with none of these characters, such as a lone currency symbol or a
  word, leaves the empty string, which \<^verbatim>\<open>Number\<close> converts to 0: the result is 0 and not
  NaN, and the formatter prints it as \<^verbatim>\<open>0\<close> where its comment promises the empty string
  for a value that is not valid. A value whose remaining characters do not form a
  number, such as \<^verbatim>\<open>1.2.3\<close>, is NaN.
\<close>

theorem toNum_no_digits:
  "toNum (Some (JStr ''$'')) = Fin 0 \<and> toNum (Some (JStr ''abc'')) = Fin 0
   \<and> formatCO (Some (JStr ''abc'')) = ''0'' \<and> toNum (Some (JStr ''1.2.3'')) = NaN"
  by (simp add: js_eval)

section \<open>Payback\<close>

text \<open>
  While the running sum \<open>c\<close> is negative, the loop either moves on (the sum stays
  negative) or stops in the year \<open>t\<close> where the sum reaches 0, with the interpolated
  value \<open>t - 1 + (-c) / x\<close>. When the first flow is already non-negative the result
  is -1.
\<close>

lemma payback_loop_skip:
  "c + x < 0 \<Longrightarrow> payback_loop (Fin x # xs) t (Fin c) = payback_loop xs (Suc t) (Fin (c + x))"
  by simp

lemma payback_loop_crossing:
  assumes "c < 0" and "0 \<le> c + x"
  shows "payback_loop (Fin x # xs) t (Fin c) = Fin (of_nat t - 1 + (- c) / x)"
proof -
  from assms have x: "0 < x" by simp
  with assms have "- c / x \<le> 1" "0 \<le> - c / x"
    by (simp_all add: field_simps)
  then have clamp: "Math_max (Fin 0) (Math_min (Fin 1) (Fin (- c / x))) = Fin (- c / x)"
    by (auto simp: Math_max_def Math_min_def)
  have "(Fin 0 - (Fin c + Fin x - Fin x)) / Fin x = Fin (- c / x)"
    using x by (simp add: minus_jsnum_def)
  with assms x clamp show ?thesis
    by (simp add: Let_def minus_jsnum_def)
qed

lemma payback_loop_year0:
  "0 \<le> x \<Longrightarrow> paybackYears (Fin x # xs) = Fin (- 1)"
  by (simp add: paybackYears_def minus_jsnum_def Math_max_def Math_min_def Let_def)

section \<open>What each step of computeFields writes\<close>

lemma set_FECHA_other: "k \<noteq> ''FECHA'' \<Longrightarrow> set_FECHA today out k = out k"
  by (simp add: set_FECHA_def)

lemma set_FECHA_keeps:
  "out k = Some w \<Longrightarrow> (k = ''FECHA'' \<longrightarrow> truthy (Some w)) \<Longrightarrow> set_FECHA today out k = Some w"
  by (auto simp: set_FECHA_def)

lemma derive_POTENCIA_other: "k \<noteq> ''POTENCIA'' \<Longrightarrow> derive_POTENCIA n out k = out k"
  by (simp add: derive_POTENCIA_def Let_def)

lemma derive_POTENCIA_keeps: "out k = Some w \<Longrightarrow> derive_POTENCIA n out k = Some w"
  by (auto simp: derive_POTENCIA_def Let_def)

lemma derive_PANELES_other: "k \<noteq> ''PANELES'' \<Longrightarrow> derive_PANELES n out k = out k"
  by (simp add: derive_PANELES_def Let_def)

lemma derive_PANELES_keeps: "out k = Some w \<Longrightarrow> derive_PANELES n out k = Some w"
  by (auto simp: derive_PANELES_def Let_def)

lemma derive_INVERSORES_other: "k \<noteq> ''INVERSORES'' \<Longrightarrow> derive_INVERSORES n out k = out k"
  by (simp add: derive_INVERSORES_def Let_def)

lemma derive_INVERSORES_keeps: "out k = Some w \<Longrightarrow> derive_INVERSORES n out k = Some w"
  by (auto simp: derive_INVERSORES_def Let_def)

lemma derive_INVERSION_TOTAL_other:
  "k \<noteq> ''INVERSION_TOTAL'' \<Longrightarrow> derive_INVERSION_TOTAL n out k = out k"
  by (simp add: derive_INVERSION_TOTAL_def Let_def)

lemma derive_INVERSION_TOTAL_keeps: "out k = Some w \<Longrightarrow> derive_INVERSION_TOTAL n out k = Some w"
  by (auto simp: derive_INVERSION_TOTAL_def Let_def)

lemma sizing_other:
  "k \<noteq> ''POTENCIA'' \<Longrightarrow> k \<noteq> ''PANELES'' \<Longrightarrow> k \<noteq> ''INVERSORES'' \<Longrightarrow> k \<noteq> ''INVERSION_TOTAL''
   \<Longrightarrow> sizing out k = out k"
  by (simp add: sizing_def Let_def derive_POTENCIA_other derive_PANELES_other
      derive_INVERSORES_other derive_INVERSION_TOTAL_other)

lemma sizing_keeps: "out k = Some w \<Longrightarrow> sizing out k = Some w"
  by (simp add: sizing_def Let_def derive_POTENCIA_keeps derive_PANELES_keeps
      derive_INVERSORES_keeps derive_INVERSION_TOTAL_keeps)

lemma derive_BENEFICIO_TRIBUTARIO_other:
  "k \<noteq> ''BENEFICIO_TRIBUTARIO'' \<Longrightarrow> derive_BENEFICIO_TRIBUTARIO n out k = out k"
  by (simp add: derive_BENEFICIO_TRIBUTARIO_def Let_def)


lemma fixed_TIR_other: "k \<noteq> ''TIR'' \<Longrightarrow> fixed_TIR out k = out k"
  by (simp add: fixed_TIR_def Let_def)


lemma fixed_BC_other: "k \<noteq> ''BC'' \<Longrightarrow> fixed_BC out k = out k"
  by (simp add: fixed_BC_def)


lemma fixed_AHORRO_TOTAL_other: "k \<noteq> ''AHORRO_TOTAL'' \<Longrightarrow> fixed_AHORRO_TOTAL out k = out k"
  by (simp add: fixed_AHORRO_TOTAL_def Let_def)


lemma fixed_RECUPERACION_INVERSION_other:
  "k \<noteq> ''RECUPERACION_INVERSION'' \<Longrightarrow> fixed_RECUPERACION_INVERSION out k = out k"
  by (simp add: fixed_RECUPERACION_INVERSION_def)



lemma fixed_metrics_other:
  "k \<noteq> ''TIR'' \<Longrightarrow> k \<noteq> ''BC'' \<Longrightarrow> k \<noteq> ''AHORRO_TOTAL'' \<Longrightarrow> k \<noteq> ''RECUPERACION_INVERSION''
   \<Longrightarrow> fixed_metrics out k = out k"
  by (simp add: fixed_metrics_def fixed_TIR_other fixed_BC_other fixed_AHORRO_TOTAL_other
      fixed_RECUPERACION_INVERSION_other)

lemma derive_PAGO_other: "k \<noteq> p \<Longrightarrow> derive_PAGO p share n out k = out k"
  by (simp add: derive_PAGO_def)

lemma pagos_other:
  "k \<noteq> ''PAGO1'' \<Longrightarrow> k \<noteq> ''PAGO2'' \<Longrightarrow> k \<noteq> ''PAGO3'' \<Longrightarrow> k \<noteq> ''PAGO4'' \<Longrightarrow> pagos n out k = out k"
  by (simp add: pagos_def derive_PAGO_other)

lemma assign_base_other: "k \<noteq> b \<Longrightarrow> assign_base b n out k = out k"
  by (simp add: assign_base_def)


lemma assign_base_part002_other: "k \<noteq> b \<Longrightarrow> assign_base_part002 b n out k = out k"
  by (simp add: assign_base_part002_def)

lemma assign_base_part002_keeps: "out k = Some w \<Longrightarrow> assign_base_part002 b n out k = Some w"
  by (auto simp: assign_base_part002_def)

lemma format_field_apply:
  "format_field out a k = (if k = a then Some (JStr (formatCO (out a))) else out k)"
  by (simp add: format_field_def)

lemma format_fields_other: "k \<notin> set ks \<Longrightarrow> foldl format_field out ks k = out k"
proof (induction ks arbitrary: out)
  case Nil
  then show ?case by simp
next
  case (Cons a ks)
  then have "foldl format_field (format_field out a) ks k = format_field out a k"
    by simp
  moreover have "format_field out a k = out k"
    using Cons.prems by (simp add: format_field_apply)
  ultimately show ?case by simp
qed

lemma format_fields_in:
  "distinct ks \<Longrightarrow> k \<in> set ks \<Longrightarrow> foldl format_field out ks k = Some (JStr (formatCO (out k)))"
proof (induction ks arbitrary: out)
  case Nil
  then show ?case by simp
next
  case (Cons a ks)
  show ?case
  proof (cases "k = a")
    case True
    with Cons.prems have "k \<notin> set ks" by simp
    then have "foldl format_field (format_field out a) ks k = format_field out a k"
      by (rule format_fields_other)
    moreover have "format_field out a k = Some (JStr (formatCO (out k)))"
      using True by (simp add: format_field_apply)
    ultimately show ?thesis by simp
  next
    case False
    with Cons.prems have "distinct ks" "k \<in> set ks" by simp_all
    then have "foldl format_field (format_field out a) ks k
               = Some (JStr (formatCO (format_field out a k)))"
      by (rule Cons.IH)
    moreover have "format_field out a k = out k"
      using False by (simp add: format_field_apply)
    ultimately show ?thesis by simp
  qed
qed

lemma final_format_other: "k \<notin> set formatted_fields \<Longrightarrow> final_format out k = out k"
  by (simp add: final_format_def format_fields_other)

lemma distinct_formatted_fields: "distinct formatted_fields"
  by (simp add: formatted_fields_def)

lemma final_format_in:
  "k \<in> set formatted_fields \<Longrightarrow> final_format out k = Some (JStr (formatCO (out k)))"
  by (simp add: final_format_def format_fields_in distinct_formatted_fields)

lemma iva_materiales_other: "k \<noteq> ''IVA_MATERIALES'' \<Longrightarrow> iva_materiales c n out k = out k"
  by (simp add: iva_materiales_def Let_def)

lemma derive_AHORRO_TOTAL_other: "k \<noteq> ''AHORRO_TOTAL'' \<Longrightarrow> derive_AHORRO_TOTAL c n out k = out k"
  by (simp add: derive_AHORRO_TOTAL_def)


lemma prepare_out:
  "ci_out (prepare c today input) =
     derive_BENEFICIO_TRIBUTARIO (toNum (sizing (set_FECHA today input) ''INVERSION_TOTAL''))
       (iva_materiales c (toNum (sizing (set_FECHA today input) ''INVERSION_TOTAL''))
         (sizing (set_FECHA today input)))"
  by (simp add: prepare_def Let_def)

lemma prepare_INVERSION_TOTAL:
  "ci_INVERSION_TOTAL (prepare c today input) = toNum (sizing (set_FECHA today input) ''INVERSION_TOTAL'')"
  by (simp add: prepare_def Let_def)

lemma metrics_other:
  "k \<noteq> ''AHORRO_TOTAL'' \<Longrightarrow> k \<noteq> ''BC'' \<Longrightarrow> k \<noteq> ''TIR'' \<Longrightarrow> k \<noteq> ''RECUPERACION_INVERSION''
   \<Longrightarrow> k \<noteq> ''ROI'' \<Longrightarrow> metrics c s flows k = ci_out s k"
  by (simp add: metrics_def Let_def derive_AHORRO_TOTAL_other)


section \<open>Input wins\<close>








section \<open>The constant metrics of server.js and part_002\<close>

lemma fixed_TIR_absent: "out ''TIR'' = None \<Longrightarrow> fixed_TIR out ''TIR'' = Some (JStr ''6.33%'')"
  by (simp add: fixed_TIR_def js_eval)

lemma fixed_BC_absent: "out ''BC'' = None \<Longrightarrow> fixed_BC out ''BC'' = Some (JStr ''2.5'')"
  by (simp add: fixed_BC_def js_eval)

lemma fixed_AHORRO_TOTAL_absent:
  "out ''AHORRO_TOTAL'' = None \<Longrightarrow> fixed_AHORRO_TOTAL out ''AHORRO_TOTAL'' = Some (JStr ''83333333'')"
  by (simp add: fixed_AHORRO_TOTAL_def js_eval)

lemma fixed_RECUPERACION_INVERSION_absent:
  "out ''RECUPERACION_INVERSION'' = None
   \<Longrightarrow> fixed_RECUPERACION_INVERSION out ''RECUPERACION_INVERSION'' = Some (JStr ''3'')"
  by (simp add: fixed_RECUPERACION_INVERSION_def js_eval)

lemma fixed_metrics_absent:
  "out ''TIR'' = None \<Longrightarrow> fixed_metrics out ''TIR'' = Some (JStr ''6.33%'')"
  "out ''BC'' = None \<Longrightarrow> fixed_metrics out ''BC'' = Some (JStr ''2.5'')"
  "out ''AHORRO_TOTAL'' = None \<Longrightarrow> fixed_metrics out ''AHORRO_TOTAL'' = Some (JStr ''83333333'')"
  "out ''RECUPERACION_INVERSION'' = None
   \<Longrightarrow> fixed_metrics out ''RECUPERACION_INVERSION'' = Some (JStr ''3'')"
  by (simp_all add: fixed_metrics_def fixed_TIR_absent fixed_BC_absent fixed_AHORRO_TOTAL_absent
      fixed_RECUPERACION_INVERSION_absent fixed_TIR_other fixed_BC_other fixed_AHORRO_TOTAL_other
      fixed_RECUPERACION_INVERSION_other)

lemma before_metrics:
  assumes "k \<in> set metric_fields"
  shows "derive_BENEFICIO_TRIBUTARIO n (sizing (set_FECHA today input)) k = input k"
proof -
  have "k \<noteq> ''BENEFICIO_TRIBUTARIO''" "k \<noteq> ''FECHA''" "k \<noteq> ''POTENCIA''" "k \<noteq> ''PANELES''"
    "k \<noteq> ''INVERSORES''" "k \<noteq> ''INVERSION_TOTAL''"
    using assms by (auto simp: metric_fields_def)
  then show ?thesis
    by (simp add: derive_BENEFICIO_TRIBUTARIO_other sizing_other set_FECHA_other)
qed

lemma server_after_metrics:
  assumes "k \<in> set metric_fields"
  shows "computeFields_server today input k =
     (let v = fixed_metrics (derive_BENEFICIO_TRIBUTARIO
                (toNum (sizing (set_FECHA today input) ''INVERSION_TOTAL''))
                (sizing (set_FECHA today input))) k
      in if k = ''AHORRO_TOTAL'' then Some (JStr (formatCO v)) else v)"
proof -
  have k: "k \<noteq> ''PAGO1''" "k \<noteq> ''PAGO2''" "k \<noteq> ''PAGO3''" "k \<noteq> ''PAGO4''"
    "k \<noteq> ''ENERGIA''" "k \<noteq> ''FACTURA''"
    using assms by (auto simp: metric_fields_def)
  show ?thesis
  proof (cases "k = ''AHORRO_TOTAL''")
    case True
    then have "k \<in> set formatted_fields" by (simp add: formatted_fields_def)
    then show ?thesis using k True
      by (simp add: computeFields_server_def Let_def final_format_in assign_base_other pagos_other)
  next
    case False
    with assms have "k \<notin> set formatted_fields"
      by (auto simp: formatted_fields_def metric_fields_def)
    then show ?thesis using k False
      by (simp add: computeFields_server_def Let_def final_format_other assign_base_other
          pagos_other)
  qed
qed

lemma part002_after_metrics:
  assumes "k \<in> set metric_fields"
  shows "computeFields_part002 today input k =
     fixed_metrics (derive_BENEFICIO_TRIBUTARIO
        (toNum (sizing (set_FECHA today input) ''INVERSION_TOTAL''))
        (sizing (set_FECHA today input))) k"
proof -
  have "k \<noteq> ''ENERGIA''" "k \<noteq> ''FACTURA''"
    using assms by (auto simp: metric_fields_def)
  then show ?thesis
    by (simp add: computeFields_part002_def Let_def assign_base_part002_other)
qed

text \<open>
  C10. In server.js and part_002, a field among TIR, BC, AHORRO_TOTAL and
  RECUPERACION_INVERSION that is absent from the input is assigned a constant, whatever
  the rest of the input holds: \<^verbatim>\<open>6.33%\<close>, \<^verbatim>\<open>2.5\<close>, 83333333 and \<^verbatim>\<open>3\<close>. part_002 returns
  these strings; server.js returns them too, AHORRO_TOTAL after its final formatting
  block as \<^verbatim>\<open>83.333.333\<close>.
\<close>

theorem fixed_metrics_constant:
  "(input ''TIR'' = None \<longrightarrow>
      computeFields_server today input ''TIR'' = Some (JStr ''6.33%'')
      \<and> computeFields_part002 today input ''TIR'' = Some (JStr ''6.33%''))
   \<and> (input ''BC'' = None \<longrightarrow>
      computeFields_server today input ''BC'' = Some (JStr ''2.5'')
      \<and> computeFields_part002 today input ''BC'' = Some (JStr ''2.5''))
   \<and> (input ''AHORRO_TOTAL'' = None \<longrightarrow>
      computeFields_server today input ''AHORRO_TOTAL'' = Some (JStr ''83.333.333'')
      \<and> computeFields_part002 today input ''AHORRO_TOTAL'' = Some (JStr ''83333333''))
   \<and> (input ''RECUPERACION_INVERSION'' = None \<longrightarrow>
      computeFields_server today input ''RECUPERACION_INVERSION'' = Some (JStr ''3'')
      \<and> computeFields_part002 today input ''RECUPERACION_INVERSION'' = Some (JStr ''3''))"
  by (simp add: server_after_metrics part002_after_metrics metric_fields_def
      fixed_metrics_absent before_metrics js_eval)

theorem fixed_metrics_constant_witness:
  "computeFields_server ''02/11/2026'' [''ENERGIA'' \<mapsto> JStr ''500'', ''FACTURA'' \<mapsto> JStr ''400000''] ''TIR''
     = Some (JStr ''6.33%'')
   \<and> computeFields_part002 ''02/11/2026'' [''ENERGIA'' \<mapsto> JStr ''500'', ''FACTURA'' \<mapsto> JStr ''400000''] ''BC''
     = Some (JStr ''2.5'')
   \<and> computeFields_server ''02/11/2026'' [''ENERGIA'' \<mapsto> JStr ''500'', ''FACTURA'' \<mapsto> JStr ''400000'']
       ''AHORRO_TOTAL'' = Some (JStr ''83.333.333'')
   \<and> computeFields_part002 ''02/11/2026'' [''ENERGIA'' \<mapsto> JStr ''500'', ''FACTURA'' \<mapsto> JStr ''400000'']
       ''AHORRO_TOTAL'' = Some (JStr ''83333333'')
   \<and> computeFields_part002 ''02/11/2026'' [''ENERGIA'' \<mapsto> JStr ''500'', ''FACTURA'' \<mapsto> JStr ''400000'']
       ''RECUPERACION_INVERSION'' = Some (JStr ''3'')"
  using fixed_metrics_constant [of "[''ENERGIA'' \<mapsto> JStr ''500'', ''FACTURA'' \<mapsto> JStr ''400000'']" "''02/11/2026''"]
  by (simp add: js_eval)

section \<open>Silent degradation\<close>

lemma server_sizing_fields:
  assumes "k \<in> {''POTENCIA'', ''PANELES'', ''INVERSORES''}"
  shows "computeFields_server today input k = sizing (set_FECHA today input) k"
proof -
  have k: "k \<noteq> ''PAGO1''" "k \<noteq> ''PAGO2''" "k \<noteq> ''PAGO3''" "k \<noteq> ''PAGO4''"
    "k \<noteq> ''ENERGIA''" "k \<noteq> ''FACTURA''" "k \<noteq> ''BENEFICIO_TRIBUTARIO''"
    "k \<noteq> ''TIR''" "k \<noteq> ''BC''" "k \<noteq> ''AHORRO_TOTAL''" "k \<noteq> ''RECUPERACION_INVERSION''"
    using assms by auto
  have "k \<notin> set formatted_fields" using assms by (auto simp: formatted_fields_def)
  then show ?thesis using k
    by (simp add: computeFields_server_def Let_def final_format_other assign_base_other
        pagos_other fixed_metrics_other derive_BENEFICIO_TRIBUTARIO_other)
qed

lemma server_INVERSION_TOTAL:
  "computeFields_server today input ''INVERSION_TOTAL''
     = Some (JStr (formatCO (sizing (set_FECHA today input) ''INVERSION_TOTAL'')))"
  by (simp add: computeFields_server_def Let_def final_format_in formatted_fields_def
      assign_base_other pagos_other fixed_metrics_other derive_BENEFICIO_TRIBUTARIO_other)

lemma sizing_blank:
  assumes "toNum (out ''ENERGIA'') = NaN" and "out ''POTENCIA'' = None" and "out ''PANELES'' = None"
    and "out ''INVERSORES'' = None" and "out ''INVERSION_TOTAL'' = None"
  shows "sizing out ''POTENCIA'' = Some (JStr [])" and "sizing out ''PANELES'' = Some (JStr [])"
    and "sizing out ''INVERSORES'' = Some (JStr [])" and "sizing out ''INVERSION_TOTAL'' = Some (JStr [])"
  using assms
  by (simp_all add: sizing_def derive_POTENCIA_def derive_PANELES_def derive_INVERSORES_def
      derive_INVERSION_TOTAL_def)

lemma missing_ENERGIA_blank:
  assumes "toNum (input ''ENERGIA'') = NaN" and "input ''POTENCIA'' = None"
    and "input ''PANELES'' = None" and "input ''INVERSORES'' = None"
    and "input ''INVERSION_TOTAL'' = None"
  shows "computeFields_server today input ''POTENCIA'' = Some (JStr [])"
    and "computeFields_server today input ''PANELES'' = Some (JStr [])"
    and "computeFields_server today input ''INVERSORES'' = Some (JStr [])"
    and "computeFields_server today input ''INVERSION_TOTAL'' = Some (JStr [])"
proof -
  let ?out0 = "set_FECHA today input"
  have "toNum (?out0 ''ENERGIA'') = NaN" "?out0 ''POTENCIA'' = None" "?out0 ''PANELES'' = None"
    "?out0 ''INVERSORES'' = None" "?out0 ''INVERSION_TOTAL'' = None"
    using assms by (simp_all add: set_FECHA_other)
  then have s: "sizing ?out0 ''POTENCIA'' = Some (JStr [])" "sizing ?out0 ''PANELES'' = Some (JStr [])"
    "sizing ?out0 ''INVERSORES'' = Some (JStr [])" "sizing ?out0 ''INVERSION_TOTAL'' = Some (JStr [])"
    by (rule sizing_blank)+
  show "computeFields_server today input ''POTENCIA'' = Some (JStr [])"
    "computeFields_server today input ''PANELES'' = Some (JStr [])"
    "computeFields_server today input ''INVERSORES'' = Some (JStr [])"
    using s by (simp_all add: server_sizing_fields)
  show "computeFields_server today input ''INVERSION_TOTAL'' = Some (JStr [])"
    using s by (simp add: server_INVERSION_TOTAL formatCO_def)
qed

lemma sizing_abc:
  "sizing (set_FECHA today [''ENERGIA'' \<mapsto> JStr ''abc'']) ''POTENCIA'' = Some (JStr ''0'')"
  "sizing (set_FECHA today [''ENERGIA'' \<mapsto> JStr ''abc'']) ''PANELES'' = Some (JStr ''0'')"
  "sizing (set_FECHA today [''ENERGIA'' \<mapsto> JStr ''abc'']) ''INVERSORES'' = Some (JStr ''0'')"
  "sizing (set_FECHA today [''ENERGIA'' \<mapsto> JStr ''abc'']) ''INVERSION_TOTAL'' = Some (JStr ''0'')"
  by (simp_all add: sizing_def set_FECHA_def derive_POTENCIA_def derive_PANELES_def
      derive_INVERSORES_def derive_INVERSION_TOTAL_def js_eval)

text \<open>
  C5. On string, number, boolean and \<^verbatim>\<open>null\<close> values no step of \<^verbatim>\<open>computeFields\<close> raises
  (nested objects are opaque in this model). When ENERGIA is missing,
  or its parse is NaN, and the four sizing fields are absent, they come out empty
  (\<open>missing_ENERGIA_blank\<close>). An ENERGIA without any numeric character, such as
  \<^verbatim>\<open>abc\<close>, is parsed as 0 and not as NaN (see C6), and the four fields come out as
  \<^verbatim>\<open>0\<close> instead of empty.
\<close>

theorem unparsable_ENERGIA_zero:
  "computeFields_server ''02/11/2026'' [''ENERGIA'' \<mapsto> JStr ''abc''] ''POTENCIA'' = Some (JStr ''0'')
   \<and> computeFields_server ''02/11/2026'' [''ENERGIA'' \<mapsto> JStr ''abc''] ''PANELES'' = Some (JStr ''0'')
   \<and> computeFields_server ''02/11/2026'' [''ENERGIA'' \<mapsto> JStr ''abc''] ''INVERSORES'' = Some (JStr ''0'')
   \<and> computeFields_server ''02/11/2026'' [''ENERGIA'' \<mapsto> JStr ''abc''] ''INVERSION_TOTAL''
       = Some (JStr ''0'')"
  by (simp add: server_sizing_fields server_INVERSION_TOTAL sizing_abc js_eval)

section \<open>The first flow\<close>

lemma flows_of_0:
  "flows_of today input ! 0 =
     (if isNaN (ci_INVERSION_TOTAL (prepare CONSTANTS today input)) then NaN
      else - ci_INVERSION_TOTAL (prepare CONSTANTS today input))"
  by (simp add: flows_of_def build_flows_def Let_def)

lemma INVERSION_TOTAL_given:
  "input ''INVERSION_TOTAL'' = Some w
   \<Longrightarrow> ci_INVERSION_TOTAL (prepare c today input) = toNum (Some w)"
  by (simp add: prepare_INVERSION_TOTAL sizing_keeps set_FECHA_keeps)

text \<open>
  C9. The first flow is the negated INVERSION_TOTAL, supplied or derived, whenever that
  is a number (\<open>flows_of_0\<close> gives NaN otherwise). No step restricts its sign: the
  first flow is at most 0 exactly when INVERSION_TOTAL is at least 0, and a negative
  INVERSION_TOTAL in the input gives a positive first flow.
\<close>

theorem flows_index0:
  "ci_INVERSION_TOTAL (prepare CONSTANTS today input) = Fin v \<Longrightarrow>
     flows_of today input ! 0 = Fin (- v) \<and> (flows_of today input ! 0 \<le> Fin 0 \<longleftrightarrow> 0 \<le> v)"
  by (simp add: flows_of_0)

theorem flows_index0_witness:
  "flows_of ''02/11/2026'' [''INVERSION_TOTAL'' \<mapsto> JStr ''1000''] ! 0 = Fin (- 1000)
   \<and> flows_of ''02/11/2026'' [''INVERSION_TOTAL'' \<mapsto> JStr ''1000''] ! 0 \<le> Fin 0"
proof -
  have "ci_INVERSION_TOTAL (prepare CONSTANTS ''02/11/2026'' [''INVERSION_TOTAL'' \<mapsto> JStr ''1000''])
        = Fin 1000"
    by (simp add: INVERSION_TOTAL_given js_eval)
  from flows_index0 [OF this] show ?thesis by simp
qed

theorem flows_index0_counterexample:
  "flows_of ''02/11/2026'' [''INVERSION_TOTAL'' \<mapsto> JStr ''-1000''] ! 0 = Fin 1000
   \<and> \<not> flows_of ''02/11/2026'' [''INVERSION_TOTAL'' \<mapsto> JStr ''-1000''] ! 0 \<le> Fin 0"
  by (simp add: flows_of_0 INVERSION_TOTAL_given js_eval)


section \<open>Payback inside computeFields\<close>

lemma part001_RECUPERACION_INVERSION:
  "computeFields_part001 today input ''RECUPERACION_INVERSION'' =
     Some (JStr (if isFinite (paybackYears (flows_of today input))
                 then toFixed (paybackYears (flows_of today input)) 1 else []))"
  by (simp add: computeFields_part001_def Let_def final_format_other formatted_fields_def
      assign_base_other metrics_def)

lemma flows_of_Cons:
  "\<exists>rest. flows_of today input =
     (if isNaN (ci_INVERSION_TOTAL (prepare CONSTANTS today input)) then NaN
      else - ci_INVERSION_TOTAL (prepare CONSTANTS today input)) # rest"
  by (simp add: flows_of_def build_flows_def Let_def)

lemma part001_payback_year0:
  "computeFields_part001 today [''INVERSION_TOTAL'' \<mapsto> JStr ''0''] ''RECUPERACION_INVERSION''
     = Some (JStr ''-1.0'')"
proof -
  let ?input = "[''INVERSION_TOTAL'' \<mapsto> JStr ''0'']"
  have "ci_INVERSION_TOTAL (prepare CONSTANTS today ?input) = Fin 0"
    by (simp add: INVERSION_TOTAL_given js_eval)
  with flows_of_Cons [of today ?input]
  obtain rest where "flows_of today ?input = Fin 0 # rest" by auto
  then have "paybackYears (flows_of today ?input) = Fin (- 1)"
    by (simp add: payback_loop_year0)
  then show ?thesis
    by (simp add: part001_RECUPERACION_INVERSION js_eval)
qed

text \<open>
  C3. When the running sum is already non-negative at index 0, \<^verbatim>\<open>paybackYears\<close> returns
  \<open>0 - 1 + 0 = -1\<close>: the interpolation formula \<open>t - 1 + frac\<close> is applied at \<open>t = 0\<close>, where
  there is no preceding year. \<^verbatim>\<open>computeFields\<close> of part_001 reaches this with an
  INVERSION_TOTAL of 0 and prints \<^verbatim>\<open>-1.0\<close>. The two examples of the specification
  evaluate to 2 and to 5/3.
\<close>

theorem paybackYears_year0:
  "paybackYears [Fin 0, Fin 50] = Fin (- 1)
   \<and> computeFields_part001 ''02/11/2026'' [''INVERSION_TOTAL'' \<mapsto> JStr ''0'']
       ''RECUPERACION_INVERSION'' = Some (JStr ''-1.0'')
   \<and> paybackYears [Fin (- 100), Fin 50, Fin 50, Fin 50] = Fin 2
   \<and> paybackYears [Fin (- 100), Fin 60, Fin 60] = Fin (5 / 3)"
  by (simp add: part001_payback_year0) (simp add: paybackYears_def js_eval)

section \<open>The cash-flow formula\<close>

lemma Math_pow_Fin: "Math_pow (Fin q) n = Fin (q ^ n)"
  by (cases n) simp_all

lemma year_flow_spec:
  "ahorroAnual c ah y - oym c iv + benY c tb y
     = spec_flow c (nan_as_zero iv) (nan_as_zero ah) (nan_as_zero tb) y"
proof -
  have a: "ahorroAnual c ah y
           = nan_as_zero ah * Math_pow (Fin 1 - Fin (DEGRAD c)) (y - 1) * Fin 12"
    by (simp add: ahorroAnual_def nan_as_zero_def minus_jsnum_def Math_pow_Fin)
  have b: "oym c iv = nan_as_zero iv * Fin (O_M_RATE c)"
    by (simp add: oym_def nan_as_zero_def)
  have d: "benY c tb y =
             (if TAX_BENEFIT_MODE c = ''YEAR1'' \<and> y = 1 then nan_as_zero tb
              else if TAX_BENEFIT_MODE c = ''DISTRIB_5Y'' \<and> y \<le> 5 then nan_as_zero tb / Fin 5
              else Fin 0)"
    by (auto simp: benY_def nan_as_zero_def)
  show ?thesis
    unfolding spec_flow_def a b d ..
qed

lemma nan_as_zero_number: "\<not> isNaN x \<Longrightarrow> nan_as_zero x = x"
  by (simp add: nan_as_zero_def)

lemma spec_flow_Fin:
  "spec_flow c (Fin iv) (Fin ah) (Fin tb) y =
     Fin (ah * (1 - DEGRAD c) ^ (y - 1) * 12 - iv * O_M_RATE c
          + (if TAX_BENEFIT_MODE c = ''YEAR1'' \<and> y = 1 then tb
             else if TAX_BENEFIT_MODE c = ''DISTRIB_5Y'' \<and> y \<le> 5 then tb / 5 else 0))"
  by (simp add: spec_flow_def minus_jsnum_def Math_pow_Fin)

lemma build_flows_nth:
  assumes "1 \<le> y" and "y \<le> YEARS c"
  shows "build_flows c iv ah tb ! y = ahorroAnual c ah y - oym c iv + benY c tb y"
proof -
  obtain i where y: "y = Suc i" using assms(1) by (cases y) auto
  with assms(2) have "i < length (years c)" by (simp add: years_def)
  moreover from y assms(2) have "years c ! i = y"
    unfolding years_def by (simp add: nth_upt del: upt_Suc)
  ultimately show ?thesis
    by (simp add: build_flows_def y)
qed

lemma build_flows_length: "length (build_flows c iv ah tb) = YEARS c + 1"
  by (simp add: build_flows_def years_def)

lemma build_flows_0: "build_flows c iv ah tb ! 0 = - iv"
  by (cases iv) (simp_all add: build_flows_def)

text \<open>
  C4. The first flow is the negated investment. For every year \<open>y\<close> from 1 to YEARS and
  every setting of the constants, the flow is the formula of the specification,
  \<open>monthlySavings0 * (1 - DEGRAD)^(y-1) * 12 - investment * O_M_RATE + benefitY\<close>, in which
  an investment, a monthly saving or a tax benefit that is NaN counts as 0: the loop
  tests each of them with \<^verbatim>\<open>isNaN\<close>. When the three are numbers this is the formula
  itself (\<open>spec_flow_Fin\<close> gives its value).
\<close>

theorem cash_flow_formula:
  "build_flows c iv ah tb ! 0 = - iv
   \<and> (\<forall>y \<in> {1 .. YEARS c}.
        build_flows c iv ah tb ! y
          = spec_flow c (nan_as_zero iv) (nan_as_zero ah) (nan_as_zero tb) y)
   \<and> (\<not> isNaN iv \<and> \<not> isNaN ah \<and> \<not> isNaN tb \<longrightarrow>
        (\<forall>y \<in> {1 .. YEARS c}. build_flows c iv ah tb ! y = spec_flow c iv ah tb y))"
proof -
  have years: "build_flows c iv ah tb ! y
        = spec_flow c (nan_as_zero iv) (nan_as_zero ah) (nan_as_zero tb) y"
    if "y \<in> {1 .. YEARS c}" for y
  proof -
    from that have "1 \<le> y" "y \<le> YEARS c" by simp_all
    then have "build_flows c iv ah tb ! y = ahorroAnual c ah y - oym c iv + benY c tb y"
      by (rule build_flows_nth)
    then show ?thesis by (simp only: year_flow_spec)
  qed
  show ?thesis
  proof (intro conjI ballI impI)
    show "build_flows c iv ah tb ! 0 = - iv" by (rule build_flows_0)
  next
    fix y assume "y \<in> {1 .. YEARS c}"
    then show "build_flows c iv ah tb ! y
        = spec_flow c (nan_as_zero iv) (nan_as_zero ah) (nan_as_zero tb) y"
      by (rule years)
  next
    fix y assume n: "\<not> isNaN iv \<and> \<not> isNaN ah \<and> \<not> isNaN tb" and "y \<in> {1 .. YEARS c}"
    then have "build_flows c iv ah tb ! y
        = spec_flow c (nan_as_zero iv) (nan_as_zero ah) (nan_as_zero tb) y"
      by (simp only: years)
    with n show "build_flows c iv ah tb ! y = spec_flow c iv ah tb y"
      by (simp add: nan_as_zero_number)
  qed
qed

theorem cash_flow_formula_witness:
  "build_flows CONSTANTS (Fin 1000) (Fin 10) (Fin 500) ! 0 = Fin (- 1000)
   \<and> build_flows CONSTANTS (Fin 1000) (Fin 10) (Fin 500) ! 1 = Fin 610
   \<and> build_flows CONSTANTS (Fin 1000) (Fin 10) (Fin 500) ! 2 = Fin (547 / 5)
   \<and> build_flows (CONSTANTS \<lparr> TAX_BENEFIT_MODE := ''DISTRIB_5Y'' \<rparr>) (Fin 1000) (Fin 10) (Fin 500) ! 5
       = Fin (120 * (199 / 200) ^ 4 - 10 + 100)
   \<and> build_flows CONSTANTS (Fin 1000) NaN (Fin 500) ! 1 = Fin 490
   \<and> build_flows CONSTANTS (Fin 1000) NaN NaN ! 2 = Fin (- 10)"
proof -
  have "(1::nat) \<in> {1 .. YEARS CONSTANTS}" "(2::nat) \<in> {1 .. YEARS CONSTANTS}"
    "(5::nat) \<in> {1 .. YEARS (CONSTANTS \<lparr> TAX_BENEFIT_MODE := ''DISTRIB_5Y'' \<rparr>)}"
    by (simp_all add: CONSTANTS_def)
  with cash_flow_formula [of CONSTANTS "Fin 1000" "Fin 10" "Fin 500"]
    cash_flow_formula [of "CONSTANTS \<lparr> TAX_BENEFIT_MODE := ''DISTRIB_5Y'' \<rparr>" "Fin 1000" "Fin 10" "Fin 500"]
    cash_flow_formula [of CONSTANTS "Fin 1000" NaN "Fin 500"]
    cash_flow_formula [of CONSTANTS "Fin 1000" NaN NaN]
  show ?thesis by (simp add: CONSTANTS_def spec_flow_Fin nan_as_zero_def)
qed

lemma prepare_ahorroMensual0:
  "ci_ahorroMensual0 (prepare c today input) =
     (if isNaN (toNum (set_FECHA today input ''FACTURA'')) then NaN
      else toNum (set_FECHA today input ''FACTURA'') * Fin (SAVINGS_RATE c))"
  by (simp add: prepare_def Let_def)

lemma prepare_BENEFICIO_TRIBUTARIO:
  "ci_BENEFICIO_TRIBUTARIO (prepare c today input)
     = toNum (ci_out (prepare c today input) ''BENEFICIO_TRIBUTARIO'')"
  by (simp add: prepare_def Let_def)

lemma only_INVERSION_TOTAL:
  "ci_INVERSION_TOTAL (prepare CONSTANTS today [''INVERSION_TOTAL'' \<mapsto> JStr ''1000'']) = Fin 1000"
  "ci_ahorroMensual0 (prepare CONSTANTS today [''INVERSION_TOTAL'' \<mapsto> JStr ''1000'']) = NaN"
  "ci_BENEFICIO_TRIBUTARIO (prepare CONSTANTS today [''INVERSION_TOTAL'' \<mapsto> JStr ''1000'']) = Fin 500"
proof -
  let ?input = "[''INVERSION_TOTAL'' \<mapsto> JStr ''1000'']"
  show i: "ci_INVERSION_TOTAL (prepare CONSTANTS today ?input) = Fin 1000"
    by (simp add: INVERSION_TOTAL_given js_eval)
  show "ci_ahorroMensual0 (prepare CONSTANTS today ?input) = NaN"
    by (simp add: prepare_ahorroMensual0 set_FECHA_other)
  have "sizing (set_FECHA today ?input) ''BENEFICIO_TRIBUTARIO'' = None"
    by (simp add: sizing_other set_FECHA_other)
  then have "iva_materiales CONSTANTS (Fin 1000) (sizing (set_FECHA today ?input))
               ''BENEFICIO_TRIBUTARIO'' = None"
    by (simp add: iva_materiales_other)
  with i have "ci_out (prepare CONSTANTS today ?input) ''BENEFICIO_TRIBUTARIO'' = Some (JStr ''500'')"
    by (simp add: prepare_out prepare_INVERSION_TOTAL derive_BENEFICIO_TRIBUTARIO_def js_eval)
  then show "ci_BENEFICIO_TRIBUTARIO (prepare CONSTANTS today ?input) = Fin 500"
    by (simp add: prepare_BENEFICIO_TRIBUTARIO js_eval)
qed

text \<open>
  With an investment of 1000, a tax benefit of 500 and no monthly saving (FACTURA
  absent from the input), the formula of the specification is NaN in year 1, and the
  flow that \<^verbatim>\<open>computeFields\<close> builds is \<open>0 - 10 + 500 = 490\<close>.
\<close>

theorem cash_flow_formula_counterexample:
  "spec_flow CONSTANTS (Fin 1000) NaN (Fin 500) 1 = NaN
   \<and> build_flows CONSTANTS (Fin 1000) NaN (Fin 500) ! 1 = Fin 490
   \<and> flows_of ''02/11/2026'' [''INVERSION_TOTAL'' \<mapsto> JStr ''1000''] ! 1 = Fin 490"
proof -
  have "(1::nat) \<le> 1" "(1::nat) \<le> YEARS CONSTANTS" by (simp_all add: CONSTANTS_def)
  then have "build_flows CONSTANTS (Fin 1000) NaN (Fin 500) ! 1
      = ahorroAnual CONSTANTS NaN 1 - oym CONSTANTS (Fin 1000) + benY CONSTANTS (Fin 500) 1"
    by (rule build_flows_nth)
  then have b: "build_flows CONSTANTS (Fin 1000) NaN (Fin 500) ! 1 = Fin 490"
    by (simp add: ahorroAnual_def oym_def benY_def CONSTANTS_def minus_jsnum_def)
  have "spec_flow CONSTANTS (Fin 1000) NaN (Fin 500) 1 = NaN"
    by (simp add: spec_flow_def minus_jsnum_def)
  with b show ?thesis
    by (simp add: flows_of_def only_INVERSION_TOTAL)
qed

section \<open>Internal rate of return\<close>




subsection \<open>Flows of one sign\<close>

lemma nonneg_add: "Fin 0 \<le> a \<Longrightarrow> Fin 0 \<le> b \<Longrightarrow> Fin 0 \<le> a + b"
  by (cases a; cases b) simp_all



lemma nonneg_div: "Fin 0 \<le> x \<Longrightarrow> 0 < p \<Longrightarrow> Fin 0 \<le> x / Fin p"
  by (cases x) simp_all









lemma discount_nonneg:
  "0 < b \<Longrightarrow> Fin 0 \<le> acc \<Longrightarrow> \<forall>x \<in> set xs. Fin 0 \<le> x \<Longrightarrow>
     Fin 0 \<le> foldl (\<lambda>acc (t, cf). acc + cf / Math_pow (Fin b) t) acc (enumerate n xs)"
  by (induction xs arbitrary: acc n) (simp_all add: Math_pow_Fin nonneg_add nonneg_div)









subsection \<open>Bisection under a bound on the variation of the net present value\<close>











section \<open>Merging\<close>

lemma pages_of_simps:
  "pages_of load None = []"
  "pages_of load (Some bytes) =
     (if length bytes = 0 then [] else (case load bytes of None \<Rightarrow> [] | Some ps \<Rightarrow> ps))"
  by (simp_all add: pages_of_def)

lemma merge_loop_pages:
  "\<forall>b \<in> set buffers. loadable load b \<Longrightarrow>
     merge_loop load out buffers = Inr (out @ concat (map (pages_of load) buffers))"
proof (induction buffers arbitrary: out)
  case Nil
  then show ?case by simp
next
  case (Cons b bs)
  then have rest: "merge_loop load out' bs = Inr (out' @ concat (map (pages_of load) bs))" for out'
    by simp
  from Cons.prems have "loadable load b" by simp
  then show ?case
    by (cases b) (auto simp: rest pages_of_simps loadable_def)
qed

lemma pages_of_skipped: "b = None \<or> b = Some [] \<Longrightarrow> pages_of load b = []"
  by (auto simp: pages_of_simps)

lemma concat_pages_filter:
  "concat (map (pages_of load) [b \<leftarrow> buffers. b \<noteq> None \<and> b \<noteq> Some []])
     = concat (map (pages_of load) buffers)"
  by (induction buffers) (auto simp: pages_of_skipped)

lemma length_concat_pages:
  "length (concat (map (pages_of load) buffers)) = sum_list (map (\<lambda>b. length (pages_of load b)) buffers)"
  by (simp add: length_concat comp_def)

text \<open>
  C7. When every buffer of the sequence is missing, empty or a buffer that the PDF
  library loads, \<^verbatim>\<open>mergePdfBuffers\<close> returns without error the document made of the pages
  of the non-empty buffers, in the order of the sequence; its page count is the sum of
  their page counts. Buffers of 2 pages, 0 bytes, a missing one and 3 pages give 5 pages.
\<close>

theorem merge_page_count:
  "\<forall>b \<in> set buffers. loadable load b \<Longrightarrow>
     merge_loop load [] buffers
       = Inr (concat (map (pages_of load) [b \<leftarrow> buffers. b \<noteq> None \<and> b \<noteq> Some []]))
     \<and> mergePdfBuffers load save buffers
       = Inr (save (concat (map (pages_of load) [b \<leftarrow> buffers. b \<noteq> None \<and> b \<noteq> Some []])))
     \<and> length (concat (map (pages_of load) [b \<leftarrow> buffers. b \<noteq> None \<and> b \<noteq> Some []]))
       = sum_list (map (\<lambda>b. length (pages_of load b)) [b \<leftarrow> buffers. b \<noteq> None \<and> b \<noteq> Some []])"
proof -
  let ?kept = "[b \<leftarrow> buffers. b \<noteq> None \<and> b \<noteq> Some []]"
  assume "\<forall>b \<in> set buffers. loadable load b"
  then have "merge_loop load [] buffers = Inr ([] @ concat (map (pages_of load) buffers))"
    by (rule merge_loop_pages)
  then have m: "merge_loop load [] buffers = Inr (concat (map (pages_of load) ?kept))"
    by (simp only: concat_pages_filter append_Nil)
  have s: "mergePdfBuffers load save buffers = Inr (save (concat (map (pages_of load) ?kept)))"
    by (simp only: mergePdfBuffers_def m sum.case)
  have l: "length (concat (map (pages_of load) ?kept))
           = sum_list (map (\<lambda>b. length (pages_of load b)) ?kept)"
    by (rule length_concat_pages)
  from m s l show ?thesis by (intro conjI)
qed

theorem merge_page_count_witness:
  "merge_loop (\<lambda>bytes. Some bytes) [] [Some ''ab'', Some [], None, Some ''cde''] = Inr ''abcde''
   \<and> mergePdfBuffers (\<lambda>bytes. Some bytes) (\<lambda>ps. ps) [Some ''ab'', Some [], None, Some ''cde'']
       = Inr ((\<lambda>ps. ps) ''abcde'')
   \<and> length ''abcde'' = 5"
  using merge_page_count [of "[Some ''ab'', Some [], None, Some ''cde'']" "\<lambda>bytes. Some bytes" "\<lambda>ps. ps"]
  by (simp add: loadable_def pages_of_simps)

section \<open>The order of the assembled document\<close>

lemma annex_pages:
  "concat (map (pages_of load) (annex readFileSync paths))
     = concat (map (\<lambda>p. pages_of load (readFileSync p)) paths)"
  by (induction paths) (auto simp: annex_def pages_of_skipped)

lemma annex_loadable:
  "\<forall>p \<in> set paths. loadable load (readFileSync p)
   \<Longrightarrow> \<forall>b \<in> set (annex readFileSync paths). loadable load b"
  by (auto simp: annex_def)

text \<open>
  C8. For every request whose three pages render and whose buffers load, the response
  holds the pages of \<^verbatim>\<open>index.html\<close>, then of \<^verbatim>\<open>index2.html\<close>, then of \<^verbatim>\<open>anexo1.pdf\<close> and
  \<^verbatim>\<open>anexo2.pdf\<close>, then of \<^verbatim>\<open>index3.html\<close>, then of \<^verbatim>\<open>anexo3.pdf\<close>, whatever the request
  data are (a missing annex file contributes no page).
\<close>

theorem assembly_order:
  assumes "render (urlIndex (computeFields_server today inputData)) = Some pdfIndex"
    and "render (urlIndex2 (computeFields_server today inputData)) = Some pdfIndex2"
    and "render (urlIndex3 (computeFields_server today inputData)) = Some pdfIndex3"
    and "\<forall>b \<in> {Some pdfIndex, Some pdfIndex2, Some pdfIndex3}. loadable load b"
    and "\<forall>p \<in> set (afterIndex2 @ afterIndex3). loadable load (readFileSync p)"
  shows "render_cotizacion render readFileSync load save today inputData
     = Inr (save (pages_of load (Some pdfIndex) @ pages_of load (Some pdfIndex2)
                  @ pages_of load (readFileSync ''templates/anexo1.pdf'')
                  @ pages_of load (readFileSync ''templates/anexo2.pdf'')
                  @ pages_of load (Some pdfIndex3)
                  @ pages_of load (readFileSync ''templates/anexo3.pdf'')))
     \<and> url_filename (urlIndex (computeFields_server today inputData)) = ''index.html''
     \<and> url_filename (urlIndex2 (computeFields_server today inputData)) = ''index2.html''
     \<and> url_filename (urlIndex3 (computeFields_server today inputData)) = ''index3.html''"
proof -
  let ?bufs = "[Some pdfIndex, Some pdfIndex2] @ annex readFileSync afterIndex2
               @ [Some pdfIndex3] @ annex readFileSync afterIndex3"
  have "\<forall>p \<in> set afterIndex2. loadable load (readFileSync p)"
    using assms(5) by simp
  then have a2: "\<forall>b \<in> set (annex readFileSync afterIndex2). loadable load b"
    by (rule annex_loadable)
  have "\<forall>p \<in> set afterIndex3. loadable load (readFileSync p)"
    using assms(5) by simp
  then have a3: "\<forall>b \<in> set (annex readFileSync afterIndex3). loadable load b"
    by (rule annex_loadable)
  note a2 a3
  with assms(4) have "\<forall>b \<in> set ?bufs. loadable load b" by auto
  then have "merge_loop load [] ?bufs = Inr ([] @ concat (map (pages_of load) ?bufs))"
    by (rule merge_loop_pages)
  then have "mergePdfBuffers load save ?bufs = Inr (save (concat (map (pages_of load) ?bufs)))"
    by (simp add: mergePdfBuffers_def)
  moreover have "concat (map (pages_of load) ?bufs)
      = pages_of load (Some pdfIndex) @ pages_of load (Some pdfIndex2)
        @ pages_of load (readFileSync ''templates/anexo1.pdf'')
        @ pages_of load (readFileSync ''templates/anexo2.pdf'')
        @ pages_of load (Some pdfIndex3)
        @ pages_of load (readFileSync ''templates/anexo3.pdf'')"
    by (simp add: annex_pages afterIndex2_def afterIndex3_def)
  ultimately have "render_cotizacion render readFileSync load save today inputData
     = Inr (save (pages_of load (Some pdfIndex) @ pages_of load (Some pdfIndex2)
                  @ pages_of load (readFileSync ''templates/anexo1.pdf'')
                  @ pages_of load (readFileSync ''templates/anexo2.pdf'')
                  @ pages_of load (Some pdfIndex3)
                  @ pages_of load (readFileSync ''templates/anexo3.pdf'')))"
    using assms(1-3) by (simp add: render_cotizacion_def Let_def)
  then show ?thesis
    by (simp add: urlIndex_def urlIndex2_def urlIndex3_def buildPageUrl_def)
qed

theorem assembly_order_witness:
  "render_cotizacion (\<lambda>u. Some (url_filename u))
      (\<lambda>p. if p = ''templates/anexo2.pdf'' then None else Some p)
      (\<lambda>bytes. Some [bytes]) concat ''02/11/2026'' [''ENERGIA'' \<mapsto> JStr ''500'']
     = Inr ''index.htmlindex2.htmltemplates/anexo1.pdfindex3.htmltemplates/anexo3.pdf''"
proof -
  let ?render = "\<lambda>u. Some (url_filename u)"
  let ?read = "\<lambda>p. if p = ''templates/anexo2.pdf'' then None else Some p"
  let ?load = "\<lambda>bytes :: string. Some [bytes]"
  let ?data = "computeFields_server ''02/11/2026'' [''ENERGIA'' \<mapsto> JStr ''500'']"
  have 1: "?render (urlIndex ?data) = Some ''index.html''"
    and 2: "?render (urlIndex2 ?data) = Some ''index2.html''"
    and 3: "?render (urlIndex3 ?data) = Some ''index3.html''"
    by (simp_all add: urlIndex_def urlIndex2_def urlIndex3_def buildPageUrl_def)
  have 4: "\<forall>b \<in> {Some ''index.html'', Some ''index2.html'', Some ''index3.html''}. loadable ?load b"
    by (simp add: loadable_def)
  have 5: "\<forall>p \<in> set (afterIndex2 @ afterIndex3). loadable ?load (?read p)"
    by (simp add: loadable_def afterIndex2_def afterIndex3_def)
  from assembly_order [of ?render, OF 1 2 3 4 5, of concat]
  show ?thesis by (simp add: pages_of_simps)
qed

end
